theory Spec2Isabelle
  imports Main "HOL-Library.Word"
begin

section \<open>The Windows inferior-control core of ds2: \<open>Target::Windows::Process\<close>\<close>

text \<open>
  A shallow embedding of \<^verbatim>\<open>Sources/Target/Windows/Process.cpp\<close> and of the
  \<open>PendingEvent\<close> structure of \<^verbatim>\<open>Headers/DebugServer2/Target/Windows/Process.h\<close>.

  Members written \<open>_x\<close> in the C++ classes carry a prefix here, because an Isabelle name
  cannot start with an underscore: \<open>pr_x\<close> is \<open>Process::_x\<close>, \<open>th_x\<close> is \<open>Thread::_x\<close>
  and \<open>pe_x\<close> is \<open>PendingEvent::_x\<close>. Public fields keep their names.

  A pointer to a \<open>Thread\<close> is the key of that thread in the process's thread map, and
  \<open>nullptr\<close> is \<open>None\<close>. Handles are natural numbers, with 0 for \<open>NULL\<close>.
\<close>

subsection \<open>Data model\<close>

type_synonym HANDLE = nat
type_synonym DWORD = nat
type_synonym ThreadId = nat
type_synonym ProcessId = nat
type_synonym Address = "64 word"

text \<open>
  Modelled from the spec: the \<open>ErrorCode\<close> enumeration is declared outside the files at
  hand. The code names \<open>kSuccess\<close>, \<open>kErrorAlreadyExist\<close> and \<open>kErrorUnsupported\<close>; the
  others are the portable taxonomy of the error-translation layer.
\<close>

datatype ErrorCode =
    kSuccess
  | kErrorUnsupported
  | kErrorAlreadyExist
  | kErrorNotFound
  | kErrorInvalidArgument
  | kErrorAccessDenied
  | kErrorUnknown

text \<open>
  Modelled from the spec: \<open>StopInfo\<close> and the run state of a \<open>Thread\<close> are declared
  outside the files at hand. The code names \<open>kEventStop\<close>, \<open>kEventExit\<close>, \<open>kEventKill\<close>,
  \<open>kReasonBreakpoint\<close> and \<open>Thread::kTerminated\<close>.
\<close>

datatype Event = kEventNone | kEventStop | kEventExit | kEventKill

datatype Reason =
  kReasonNone | kReasonBreakpoint | kReasonSingleStep | kReasonSignal | kReasonException

record StopInfo =
  event :: Event
  reason :: Reason
  status :: DWORD

datatype State = kRunning | kSuspended | kStopped | kTerminated

record Thread =
  th_tid :: ThreadId
  th_handle :: HANDLE
  th_state :: State
  th_stopInfo :: StopInfo

record PendingEvent =
  pe_valid :: bool
  pe_tid :: ThreadId

datatype Endian = kEndianLittle | kEndianBig

record ProcessInfo =
  pid :: ProcessId
  realUid :: nat
  realGid :: nat
  cpuType :: nat
  cpuSubType :: nat
  nativeCPUType :: nat
  nativeCPUSubType :: nat
  endian :: Endian
  pointerSize :: nat
  archFlags :: nat
  osType :: string
  osVendor :: string

record Process =
  pr_handle :: HANDLE
  pr_pid :: ProcessId
  pr_flags :: nat
  pr_terminated :: bool
  pr_threads :: "ThreadId \<rightharpoonup> Thread"
  pr_currentThread :: "ThreadId option"
  pr_pendingEvent :: PendingEvent
  pr_info :: ProcessInfo

text \<open>
  The \<open>DEBUG_EVENT\<close> of the host. The members of its union that \<open>wait\<close> reads are
  flattened into fields: \<open>hProcess\<close> and \<open>hFile\<close> are those of \<open>u.CreateProcessInfo\<close>,
  \<open>hThread\<close> is \<open>u.CreateProcessInfo.hThread\<close> for a process-created event and
  \<open>u.CreateThread.hThread\<close> for a thread-created event.
\<close>

record DEBUG_EVENT =
  dwDebugEventCode :: DWORD
  dwThreadId :: ThreadId
  hProcess :: HANDLE
  hThread :: HANDLE
  hFile :: HANDLE

definition EXCEPTION_DEBUG_EVENT :: DWORD where [simp]: "EXCEPTION_DEBUG_EVENT = 1"
definition CREATE_THREAD_DEBUG_EVENT :: DWORD where [simp]: "CREATE_THREAD_DEBUG_EVENT = 2"
definition CREATE_PROCESS_DEBUG_EVENT :: DWORD where [simp]: "CREATE_PROCESS_DEBUG_EVENT = 3"
definition EXIT_THREAD_DEBUG_EVENT :: DWORD where [simp]: "EXIT_THREAD_DEBUG_EVENT = 4"
definition EXIT_PROCESS_DEBUG_EVENT :: DWORD where [simp]: "EXIT_PROCESS_DEBUG_EVENT = 5"
definition LOAD_DLL_DEBUG_EVENT :: DWORD where [simp]: "LOAD_DLL_DEBUG_EVENT = 6"
definition UNLOAD_DLL_DEBUG_EVENT :: DWORD where [simp]: "UNLOAD_DLL_DEBUG_EVENT = 7"
definition OUTPUT_DEBUG_STRING_EVENT :: DWORD where [simp]: "OUTPUT_DEBUG_STRING_EVENT = 8"
definition ERROR_PARTIAL_COPY :: DWORD where [simp]: "ERROR_PARTIAL_COPY = 299"
definition MEM_RELEASE :: DWORD where [simp]: "MEM_RELEASE = 32768"

subsection \<open>The host and the collaborators\<close>

text \<open>
  What a native copy answers: the \<open>BOOL\<close> it returns, the count it stores in
  \<open>bytesRead\<close> or \<open>bytesWritten\<close>, the value \<open>GetLastError\<close> gives afterwards, and,
  for a read, the content of the caller's buffer after the call, by offset.
\<close>

record copy_reply =
  cp_result :: bool
  cp_bytes :: nat
  cp_lastError :: DWORD
  cp_data :: "nat \<Rightarrow> char"

text \<open>
  What \<open>EnumProcessModules\<close> answers: the \<open>BOOL\<close>, the last error, \<open>bytesNeeded\<close> and
  the module handles it has stored at the front of the caller's buffer.
\<close>

record enum_reply =
  en_result :: bool
  en_lastError :: DWORD
  en_bytesNeeded :: nat
  en_stored :: "HANDLE list"

text \<open>
  What \<open>GetModuleFileNameExW\<close> answers: the length it returns (0 when it fails), the
  last error, and the content of \<open>nameStr\<close> after the call, by index.
\<close>

record name_reply =
  nm_size :: nat
  nm_lastError :: DWORD
  nm_chars :: "nat \<Rightarrow> 16 word"

text \<open>
  Every function the code calls and the files at hand do not define is a field of
  \<open>Host\<close>: the native calls of the operating system and the methods of \<open>Platform\<close>,
  \<open>Thread\<close> and \<open>ProcessBase\<close>. A native call that returns a \<open>BOOL\<close> answers
  \<open>None\<close> for \<open>TRUE\<close> and \<open>Some e\<close> for \<open>FALSE\<close> with last error \<open>e\<close>;
  \<open>Platform::TranslateError()\<close> without argument translates that last error.
  \<open>EnumProcessModules\<close> takes the number of the call within one enumeration first
  (0 for the size query, 1 for the query that fills the buffer), since the two calls
  may disagree.
\<close>

record Host =
  TranslateError :: "DWORD \<Rightarrow> ErrorCode"
  GetThreadId :: "HANDLE \<Rightarrow> ThreadId"
  GetExitCodeProcess :: "HANDLE \<Rightarrow> DWORD + DWORD"
  TerminateProcess :: "HANDLE \<Rightarrow> DWORD \<Rightarrow> DWORD option"
  Thread_resume :: "Thread \<Rightarrow> ErrorCode \<times> Thread"
  Thread_suspend :: "Thread \<Rightarrow> ErrorCode \<times> Thread"
  Thread_updateState :: "Thread \<Rightarrow> DEBUG_EVENT \<Rightarrow> Thread"
  Process_suspend :: "(ThreadId \<rightharpoonup> Thread) \<Rightarrow> ErrorCode \<times> (ThreadId \<rightharpoonup> Thread)"
  ReadProcessMemory :: "HANDLE \<Rightarrow> Address \<Rightarrow> nat \<Rightarrow> copy_reply"
  WriteProcessMemory :: "HANDLE \<Rightarrow> Address \<Rightarrow> char list \<Rightarrow> nat \<Rightarrow> copy_reply"
  VirtualFreeEx :: "HANDLE \<Rightarrow> Address \<Rightarrow> nat \<Rightarrow> DWORD \<Rightarrow> DWORD option"
  EnumProcessModules :: "nat \<Rightarrow> HANDLE \<Rightarrow> nat \<Rightarrow> enum_reply"
  sizeof_HMODULE :: nat
  GetModuleFileNameExW :: "HANDLE \<Rightarrow> HANDLE \<Rightarrow> nat \<Rightarrow> name_reply"
  WideToNarrowString :: "(16 word) list \<Rightarrow> string"
  GetCPUType :: nat
  GetCPUSubType :: nat
  GetPointerSize :: nat
  GetOSTypeName :: string
  GetOSVendorName :: string

text \<open>
  \<open>DS2ASSERT\<close> and \<open>DS2BUG\<close> are macros of a header that is not at hand. A failed
  assertion stops the program: the operation has no result, which is
  \<open>AssertionFailed\<close> here.
\<close>

datatype 'a checked = AssertionFailed | Ok 'a

subsection \<open>\<open>PendingEvent\<close>\<close>

definition PendingEvent_init :: PendingEvent where
  "PendingEvent_init = \<lparr>pe_valid = False, pe_tid = 0\<rparr>"

text \<open>
  \<open>set\<close> calls \<open>thread->suspend()\<close> and drops the code it returns; the thread that
  comes back is the thread after that call.
\<close>

definition PendingEvent_set ::
  "Host \<Rightarrow> PendingEvent \<Rightarrow> Thread \<Rightarrow> (PendingEvent \<times> Thread) checked" where
  "PendingEvent_set h pe thread =
     (if pe_valid pe then AssertionFailed
      else Ok (pe\<lparr>pe_valid := True, pe_tid := th_tid thread\<rparr>,
               snd (Thread_suspend h thread)))"


subsection \<open>\<open>terminate\<close> and \<open>isAlive\<close>\<close>

definition terminate :: "Host \<Rightarrow> Process \<Rightarrow> ErrorCode \<times> Process" where
  "terminate h p =
     (case TerminateProcess h (pr_handle p) 0 of
        Some e \<Rightarrow> (TranslateError h e, p)
      | None \<Rightarrow> (kSuccess, p\<lparr>pr_terminated := True\<rparr>))"

definition isAlive :: "Process \<Rightarrow> bool" where
  "isAlive p = (\<not> pr_terminated p)"

subsection \<open>\<open>wait\<close>\<close>

text \<open>
  Modelled from the spec: the constructor of \<open>Thread\<close> and \<open>ProcessBase::removeThread\<close>
  are not in the files at hand. The constructor registers the new thread in the thread
  set of its process, under its id; \<open>removeThread\<close> drops the thread of that id. The
  run state and the stop descriptor a fresh thread starts with are not specified; they
  are taken as \<open>kStopped\<close> and the empty descriptor, and no result below depends on them.
\<close>

definition Thread_ctor :: "ThreadId \<Rightarrow> HANDLE \<Rightarrow> Thread" where
  "Thread_ctor tid hdl =
     \<lparr>th_tid = tid, th_handle = hdl, th_state = kStopped,
      th_stopInfo = \<lparr>event = kEventNone, reason = kReasonNone, status = 0\<rparr>\<rparr>"

definition insert_thread :: "Thread \<Rightarrow> Process \<Rightarrow> Process" where
  "insert_thread t p = p\<lparr>pr_threads := (pr_threads p)(th_tid t \<mapsto> t)\<rparr>"

definition removeThread :: "ThreadId \<Rightarrow> Process \<Rightarrow> Process" where
  "removeThread tid p = p\<lparr>pr_threads := (pr_threads p)(tid := None)\<rparr>"

text \<open>
  What handling one harvested event does to the loop of \<open>wait\<close>: an assertion fails,
  \<open>wait\<close> returns a code, or the loop goes round again.
\<close>

datatype step = Bug | Stop ErrorCode Process | Continue Process

definition on_create_process :: "Host \<Rightarrow> DEBUG_EVENT \<Rightarrow> Process \<Rightarrow> step" where
  "on_create_process h de p =
     (if pr_handle p \<noteq> 0 then Bug
      else if hProcess de = 0 then Bug
      else if hThread de = 0 then Bug
      else
        let t = Thread_ctor (GetThreadId h (hThread de)) (hThread de);
            k = th_tid t;
            p1 = (insert_thread t (p\<lparr>pr_handle := hProcess de\<rparr>))\<lparr>pr_currentThread := Some k\<rparr>
        in case PendingEvent_set h (pr_pendingEvent p1) t of
             AssertionFailed \<Rightarrow> Bug
           | Ok (pe, t') \<Rightarrow>
               Stop kSuccess
                 (p1\<lparr>pr_pendingEvent := pe, pr_threads := (pr_threads p1)(k \<mapsto> t')\<rparr>))"

definition on_exit_process :: "Host \<Rightarrow> DEBUG_EVENT \<Rightarrow> Process \<Rightarrow> step" where
  "on_exit_process h de p =
     (if card (dom (pr_threads p)) \<noteq> 1 then Bug
      else case pr_threads p (dwThreadId de) of
        None \<Rightarrow> Bug
      | Some t \<Rightarrow>
          (case PendingEvent_set h (pr_pendingEvent p) t of
             AssertionFailed \<Rightarrow> Bug
           | Ok (pe, t1) \<Rightarrow>
               let k = dwThreadId de;
                   t2 = t1\<lparr>th_state := kTerminated\<rparr>;
                   p1 = p\<lparr>pr_currentThread := Some k, pr_pendingEvent := pe,
                          pr_terminated := True, pr_threads := (pr_threads p)(k \<mapsto> t2)\<rparr>
               in case GetExitCodeProcess h (pr_handle p1) of
                    Inl e \<Rightarrow> Stop (TranslateError h e) p1
                  | Inr exitCode \<Rightarrow>
                      Stop kSuccess
                        (p1\<lparr>pr_threads := (pr_threads p1)
                               (k \<mapsto> t2\<lparr>th_stopInfo :=
                                  (th_stopInfo t2)\<lparr>event := kEventExit,
                                                    status := exitCode\<rparr>\<rparr>)\<rparr>)))"

definition on_create_thread :: "Host \<Rightarrow> DEBUG_EVENT \<Rightarrow> Process \<Rightarrow> step" where
  "on_create_thread h de p =
     (let t = Thread_ctor (dwThreadId de) (hThread de);
          k = th_tid t;
          p1 = (insert_thread t p)\<lparr>pr_currentThread := Some k\<rparr>;
          (error, t') = Thread_resume h t;
          p2 = p1\<lparr>pr_threads := (pr_threads p1)(k \<mapsto> t')\<rparr>
      in if error \<noteq> kSuccess then Stop error p2 else Continue p2)"

definition on_exit_thread :: "Host \<Rightarrow> DEBUG_EVENT \<Rightarrow> Process \<Rightarrow> step" where
  "on_exit_thread h de p =
     (case pr_threads p (dwThreadId de) of
        None \<Rightarrow> Bug
      | Some t \<Rightarrow>
          let k = dwThreadId de;
              t1 = Thread_updateState h t de;
              (error, t2) = Thread_resume h t1;
              p1 = p\<lparr>pr_currentThread := Some k, pr_threads := (pr_threads p)(k \<mapsto> t2)\<rparr>
          in if error \<noteq> kSuccess then Stop error p1
             else Continue (removeThread (th_tid t2) p1))"

definition on_stop_event :: "Host \<Rightarrow> DEBUG_EVENT \<Rightarrow> Process \<Rightarrow> step" where
  "on_stop_event h de p =
     (case pr_threads p (dwThreadId de) of
        None \<Rightarrow> Bug
      | Some t \<Rightarrow>
          let k = dwThreadId de;
              t1 = Thread_updateState h t de
          in case PendingEvent_set h (pr_pendingEvent p) t1 of
               AssertionFailed \<Rightarrow> Bug
             | Ok (pe, t2) \<Rightarrow>
                 let p1 = p\<lparr>pr_currentThread := Some k, pr_pendingEvent := pe,
                            pr_threads := (pr_threads p)(k \<mapsto> t2)\<rparr>;
                     (error, ths) = Process_suspend h (pr_threads p1);
                     p2 = p1\<lparr>pr_threads := ths\<rparr>
                 in if error \<noteq> kSuccess then Stop error p2 else Stop kSuccess p2)"

text \<open>The \<open>switch\<close> on \<open>de.dwDebugEventCode\<close>, in the order of its cases.\<close>

definition wait_event :: "Host \<Rightarrow> DEBUG_EVENT \<Rightarrow> Process \<Rightarrow> step" where
  "wait_event h de p =
     (let c = dwDebugEventCode de in
      if c = CREATE_PROCESS_DEBUG_EVENT then on_create_process h de p
      else if c = EXIT_PROCESS_DEBUG_EVENT then on_exit_process h de p
      else if c = CREATE_THREAD_DEBUG_EVENT then on_create_thread h de p
      else if c = EXIT_THREAD_DEBUG_EVENT then on_exit_thread h de p
      else if c = EXCEPTION_DEBUG_EVENT \<or> c = LOAD_DLL_DEBUG_EVENT
              \<or> c = UNLOAD_DLL_DEBUG_EVENT \<or> c = OUTPUT_DEBUG_STRING_EVENT
        then on_stop_event h de p
      else Bug)"

text \<open>
  The native event source is the list of the answers \<open>WaitForDebugEvent\<close> will give,
  in order: \<open>Inl e\<close> when the call returns \<open>FALSE\<close> with last error \<open>e\<close>, \<open>Inr de\<close>
  when it delivers the event \<open>de\<close>. The timeout is \<open>INFINITE\<close>, so with no answer
  left the call never returns: \<open>wait\<close> \<open>Blocked\<close>. A \<open>wait\<close> that returns gives its
  code, the process after the call and the answers not yet consumed.
\<close>

type_synonym wait_reply = "DWORD + DEBUG_EVENT"

datatype wait_result =
    Aborted
  | Blocked
  | Returned ErrorCode Process "wait_reply list"

fun wait_loop :: "Host \<Rightarrow> wait_reply list \<Rightarrow> Process \<Rightarrow> wait_result" where
  "wait_loop h [] p = Blocked"
| "wait_loop h (Inl e # rs) p =
     Returned (TranslateError h e) (p\<lparr>pr_currentThread := None\<rparr>) rs"
| "wait_loop h (Inr de # rs) p =
     (case wait_event h de (p\<lparr>pr_currentThread := None\<rparr>) of
        Bug \<Rightarrow> Aborted
      | Stop error p' \<Rightarrow> Returned error p' rs
      | Continue p' \<Rightarrow> wait_loop h rs p')"

text \<open>
  With \<open>_terminated\<close> set, \<open>wait\<close> asserts that \<open>_currentThread\<close> is not null and writes
  through it. A pointer to a thread that is no longer registered has no object to write
  to; the model stops there as for a failed assertion.
\<close>

definition wait :: "Host \<Rightarrow> wait_reply list \<Rightarrow> Process \<Rightarrow> wait_result" where
  "wait h rs p =
     (if pr_terminated p then
        (case pr_currentThread p of
           None \<Rightarrow> Aborted
         | Some k \<Rightarrow>
             (case pr_threads p k of
                None \<Rightarrow> Aborted
              | Some t \<Rightarrow>
                  Returned kSuccess
                    (p\<lparr>pr_threads := (pr_threads p)
                          (k \<mapsto> t\<lparr>th_stopInfo := (th_stopInfo t)\<lparr>event := kEventKill\<rparr>\<rparr>)\<rparr>)
                    rs))
      else wait_loop h rs p)"

subsection \<open>Memory access\<close>

text \<open>
  An out-parameter \<open>size_t *\<close> is \<open>None\<close> for \<open>nullptr\<close> and \<open>Some v\<close> for a pointer
  to a variable that holds \<open>v\<close>; the operation returns it as it is after the call.
  \<open>readMemory\<close> returns its code, the out-parameter and the caller's buffer.
\<close>

definition readMemory ::
  "Host \<Rightarrow> Process \<Rightarrow> Address \<Rightarrow> nat \<Rightarrow> nat option
     \<Rightarrow> ErrorCode \<times> nat option \<times> (nat \<Rightarrow> char)" where
  "readMemory h p address len nread =
     (let r = ReadProcessMemory h (pr_handle p) address len;
          bytesRead = cp_bytes r;
          nread' = (case nread of None \<Rightarrow> None | Some _ \<Rightarrow> Some bytesRead)
      in if \<not> cp_result r
            \<and> (cp_lastError r \<noteq> ERROR_PARTIAL_COPY \<or> bytesRead = 0)
         then (TranslateError h (cp_lastError r), nread', cp_data r)
         else (kSuccess, nread', cp_data r))"

definition writeMemory ::
  "Host \<Rightarrow> Process \<Rightarrow> Address \<Rightarrow> char list \<Rightarrow> nat \<Rightarrow> nat option
     \<Rightarrow> ErrorCode \<times> nat option" where
  "writeMemory h p address data len nwritten =
     (let r = WriteProcessMemory h (pr_handle p) address data len;
          bytesWritten = cp_bytes r;
          nwritten' = (case nwritten of None \<Rightarrow> None | Some _ \<Rightarrow> Some bytesWritten)
      in if \<not> cp_result r
            \<and> (cp_lastError r \<noteq> ERROR_PARTIAL_COPY \<or> bytesWritten = 0)
         then (TranslateError h (cp_lastError r), nwritten')
         else (kSuccess, nwritten'))"

text \<open>
  The loop of \<open>readString\<close>, from index \<open>i\<close> with \<open>str\<close> as built so far. The address
  of a read is \<open>address + i\<close> in 64 bits.
\<close>

function readString_loop ::
  "Host \<Rightarrow> Process \<Rightarrow> Address \<Rightarrow> nat \<Rightarrow> nat \<Rightarrow> string \<Rightarrow> ErrorCode \<times> string" where
  "readString_loop h p address len i str =
     (if i < len then
        (let r = readMemory h p (address + of_nat i) 1 None;
             error = fst r;
             c = snd (snd r) 0
         in if error \<noteq> kSuccess then (error, str)
            else if c = CHR 0x00 then (kSuccess, str)
            else readString_loop h p address len (i + 1) (str @ [c]))
      else (kSuccess, str))"
  by pat_completeness auto
termination
  by (relation "measure (\<lambda>(h, p, address, len, i, str). len - i)") auto

declare readString_loop.simps [simp del]

text \<open>\<open>readString\<close> returns its code, \<open>str\<close> and the out-parameter \<open>nread\<close>.\<close>

definition readString ::
  "Host \<Rightarrow> Process \<Rightarrow> Address \<Rightarrow> string \<Rightarrow> nat \<Rightarrow> nat option
     \<Rightarrow> ErrorCode \<times> string \<times> nat option" where
  "readString h p address str len nread =
     (let r = readString_loop h p address len 0 str
      in (fst r, snd r, nread))"

subsection \<open>\<open>updateInfo\<close>\<close>

definition updateInfo :: "Host \<Rightarrow> Process \<Rightarrow> ErrorCode \<times> Process" where
  "updateInfo h p =
     (if pid (pr_info p) = pr_pid p then (kErrorAlreadyExist, p)
      else
        let i0 = pr_info p;
            i1 = i0\<lparr>pid := pr_pid p\<rparr>;
            i2 = i1\<lparr>realUid := 0, realGid := 0\<rparr>;
            i3 = i2\<lparr>cpuType := GetCPUType h, cpuSubType := GetCPUSubType h\<rparr>;
            i4 = i3\<lparr>nativeCPUType := cpuType i3, nativeCPUSubType := cpuSubType i3\<rparr>;
            i5 = i4\<lparr>endian := kEndianLittle\<rparr>;
            i6 = i5\<lparr>pointerSize := GetPointerSize h\<rparr>;
            i7 = i6\<lparr>archFlags := 0\<rparr>;
            i8 = i7\<lparr>osType := GetOSTypeName h, osVendor := GetOSVendorName h\<rparr>
        in (kSuccess, p\<lparr>pr_info := i8\<rparr>))"

subsection \<open>\<open>deallocateMemory\<close>\<close>

definition deallocateMemory :: "Host \<Rightarrow> Process \<Rightarrow> Address \<Rightarrow> nat \<Rightarrow> ErrorCode" where
  "deallocateMemory h p address sz =
     (case VirtualFreeEx h (pr_handle p) address 0 MEM_RELEASE of
        Some e \<Rightarrow> TranslateError h e
      | None \<Rightarrow> kSuccess)"

subsection \<open>\<open>enumerateSharedLibraries\<close>\<close>

record SharedLibraryInfo =
  path :: string
  main :: bool
  sections :: "64 word list"

text \<open>
  The two transforms of the path: a leading drive letter with its colon is erased,
  then every backslash becomes a slash.
\<close>

definition unix_path :: "string \<Rightarrow> string" where
  "unix_path s =
     (let s1 = (if length s \<ge> 2 \<and> (65::nat) \<le> of_char (s ! 0) \<and> of_char (s ! 0) \<le> (90::nat)
                   \<and> s ! 1 = CHR '':''
                then drop 2 s else s)
      in map (\<lambda>c. if c = CHR 0x5C then CHR ''/'' else c) s1)"

text \<open>
  The loop over \<open>modules\<close>: \<open>m0\<close> is \<open>modules[0]\<close>, \<open>ms\<close> the entries still to visit
  and \<open>visited\<close> the descriptors the visitor \<open>cb\<close> has been called with, in order.
  \<open>sizeof(nameStr)\<close> is 520, for \<open>MAX_PATH\<close> characters of 16 bits.
\<close>

fun visit_modules ::
  "Host \<Rightarrow> Process \<Rightarrow> HANDLE \<Rightarrow> HANDLE list \<Rightarrow> SharedLibraryInfo list
     \<Rightarrow> ErrorCode \<times> SharedLibraryInfo list" where
  "visit_modules h p m0 [] visited = (kSuccess, visited)"
| "visit_modules h p m0 (m # ms) visited =
     (let r = GetModuleFileNameExW h (pr_handle p) m 520;
          nameSize = nm_size r
      in if nameSize = 0 then (TranslateError h (nm_lastError r), visited)
         else
           let sl = \<lparr>path = unix_path (WideToNarrowString h (map (nm_chars r) [0..<nameSize])),
                     main = (m = m0),
                     sections = [of_nat m]\<rparr>
           in visit_modules h p m0 ms (visited @ [sl]))"

text \<open>
  The vector \<open>modules\<close> after the second query: \<open>resize\<close> has filled it with \<open>n\<close>
  null handles, and the query has stored handles at its front, no more than fit.
\<close>

definition modules_after :: "nat \<Rightarrow> HANDLE list \<Rightarrow> HANDLE list" where
  "modules_after n stored = take n stored @ replicate (n - length stored) 0"

text \<open>
  \<open>enumerateSharedLibraries\<close> returns its code and the descriptors the visitor has been
  called with, in order.
\<close>

definition enumerateSharedLibraries ::
  "Host \<Rightarrow> Process \<Rightarrow> ErrorCode \<times> SharedLibraryInfo list" where
  "enumerateSharedLibraries h p =
     (let r0 = EnumProcessModules h 0 (pr_handle p) 0
      in if \<not> en_result r0 then (TranslateError h (en_lastError r0), [])
         else
           let n = en_bytesNeeded r0 div sizeof_HMODULE h;
               r1 = EnumProcessModules h 1 (pr_handle p) (n * sizeof_HMODULE h)
           in if \<not> en_result r1 then (TranslateError h (en_lastError r1), [])
              else
                (case modules_after n (en_stored r1) of
                   [] \<Rightarrow> (kSuccess, [])
                 | m0 # ms \<Rightarrow> visit_modules h p m0 (m0 # ms) []))"

subsection \<open>A sample host and a sample process\<close>

text \<open>
  The inputs the results below are evaluated at. \<open>ex_TranslateError\<close> stands for
  \<open>Platform::TranslateError\<close>, which is not in the files at hand: it sends the host's
  codes for file-not-found, access-denied and invalid-parameter to their portable
  codes and every other code to \<open>kErrorUnknown\<close>. The sample memory holds the bytes
  \<open>h\<close>, \<open>i\<close>, 0 at address 4096 and \<open>z\<close> elsewhere; the sample process has the two
  modules 8 and 9, named \<open>C:\a\<close> and \<open>C:\k\<close>, and a null module handle names the
  executable, \<open>C:\a\<close>.
\<close>

definition ex_TranslateError :: "DWORD \<Rightarrow> ErrorCode" where
  "ex_TranslateError e =
     (if e = 2 then kErrorNotFound
      else if e = 5 then kErrorAccessDenied
      else if e = 87 then kErrorInvalidArgument
      else kErrorUnknown)"

definition ex_bytes :: "Address \<Rightarrow> char" where
  "ex_bytes a =
     (if a = 4096 then CHR ''h'' else if a = 4097 then CHR ''i''
      else if a = 4098 then CHR 0x00 else CHR ''z'')"

definition ex_name :: "HANDLE \<Rightarrow> nat \<Rightarrow> 16 word" where
  "ex_name m i =
     (if i = 0 then 67 else if i = 1 then 58 else if i = 2 then 92
      else if m = 9 then 107 else 97)"

definition ex_narrow :: "16 word \<Rightarrow> char" where
  "ex_narrow w =
     (if w = 67 then CHR ''C'' else if w = 58 then CHR '':'' else if w = 92 then CHR 0x5C
      else if w = 107 then CHR ''k'' else CHR ''a'')"

definition ex_host :: Host where
  "ex_host =
     \<lparr>TranslateError = ex_TranslateError,
      GetThreadId = (\<lambda>hdl. hdl + 100),
      GetExitCodeProcess = (\<lambda>hdl. Inr 3),
      TerminateProcess = (\<lambda>hdl code. None),
      Thread_resume = (\<lambda>t. (kSuccess, t\<lparr>th_state := kRunning\<rparr>)),
      Thread_suspend = (\<lambda>t. (kSuccess, t\<lparr>th_state := kSuspended\<rparr>)),
      Thread_updateState = (\<lambda>t de. t\<lparr>th_state := kStopped,
         th_stopInfo := \<lparr>event = kEventStop, reason = kReasonBreakpoint, status = 0\<rparr>\<rparr>),
      Process_suspend = (\<lambda>ths. (kSuccess, ths)),
      ReadProcessMemory = (\<lambda>hdl a len.
         \<lparr>cp_result = True, cp_bytes = len, cp_lastError = 0,
          cp_data = (\<lambda>i. ex_bytes (a + of_nat i))\<rparr>),
      WriteProcessMemory = (\<lambda>hdl a d len.
         \<lparr>cp_result = True, cp_bytes = len, cp_lastError = 0, cp_data = (\<lambda>i. CHR 0x00)\<rparr>),
      VirtualFreeEx = (\<lambda>hdl a sz ty. None),
      EnumProcessModules = (\<lambda>n hdl cb.
         \<lparr>en_result = True, en_lastError = 0, en_bytesNeeded = 16,
          en_stored = (if n = 0 then [] else [8, 9])\<rparr>),
      sizeof_HMODULE = 8,
      GetModuleFileNameExW = (\<lambda>hdl m n.
         \<lparr>nm_size = 4, nm_lastError = 0, nm_chars = ex_name m\<rparr>),
      WideToNarrowString = map ex_narrow,
      GetCPUType = 7,
      GetCPUSubType = 3,
      GetPointerSize = 8,
      GetOSTypeName = ''windows'',
      GetOSVendorName = ''unknown''\<rparr>"

definition ex_thread :: Thread where
  "ex_thread = Thread_ctor 7 70"

definition ex_info :: ProcessInfo where
  "ex_info =
     \<lparr>pid = 0, realUid = 0, realGid = 0, cpuType = 0, cpuSubType = 0,
      nativeCPUType = 0, nativeCPUSubType = 0, endian = kEndianBig, pointerSize = 0,
      archFlags = 0, osType = [], osVendor = []\<rparr>"

definition ex_proc :: Process where
  "ex_proc =
     \<lparr>pr_handle = 44, pr_pid = 4242, pr_flags = 0, pr_terminated = False,
      pr_threads = [7 \<mapsto> ex_thread], pr_currentThread = Some 7,
      pr_pendingEvent = PendingEvent_init, pr_info = ex_info\<rparr>"

definition ex_event :: "DWORD \<Rightarrow> ThreadId \<Rightarrow> DEBUG_EVENT" where
  "ex_event c tid =
     \<lparr>dwDebugEventCode = c, dwThreadId = tid, hProcess = 0, hThread = tid * 10, hFile = 0\<rparr>"

text \<open>The sample host with a \<open>Thread::resume\<close> that fails.\<close>

definition ex_host_resume_fails :: Host where
  "ex_host_resume_fails = ex_host\<lparr>Thread_resume := (\<lambda>t. (kErrorUnknown, t))\<rparr>"

text \<open>
  The sample host with native copies that all answer alike: the \<open>BOOL\<close> \<open>ok\<close>,
  \<open>n\<close> bytes transferred and last error \<open>e\<close>.
\<close>

definition ex_host_copy :: "bool \<Rightarrow> nat \<Rightarrow> DWORD \<Rightarrow> Host" where
  "ex_host_copy ok n e =
     ex_host\<lparr>ReadProcessMemory := (\<lambda>hdl a len.
                \<lparr>cp_result = ok, cp_bytes = n, cp_lastError = e, cp_data = (\<lambda>i. CHR 0x00)\<rparr>),
             WriteProcessMemory := (\<lambda>hdl a d len.
                \<lparr>cp_result = ok, cp_bytes = n, cp_lastError = e, cp_data = (\<lambda>i. CHR 0x00)\<rparr>)\<rparr>"

text \<open>
  The sample host when the debuggee unloads a module between the two queries of an
  enumeration: the size query asks for room for three modules, the second query
  stores two.
\<close>

definition ex_host_race :: Host where
  "ex_host_race =
     ex_host\<lparr>EnumProcessModules := (\<lambda>n hdl cb.
        if n = 0
        then \<lparr>en_result = True, en_lastError = 0, en_bytesNeeded = 24, en_stored = []\<rparr>
        else \<lparr>en_result = True, en_lastError = 0, en_bytesNeeded = 16, en_stored = [8, 9]\<rparr>)\<rparr>"

subsection \<open>What the one-byte reads of \<open>readString\<close> give\<close>

text \<open>
  \<open>read_ok\<close> says that the read \<open>readString\<close> makes at index \<open>i\<close> returns \<open>kSuccess\<close>,
  and \<open>char_read\<close> is the character that read leaves in \<open>c\<close>.
\<close>

definition read_ok :: "Host \<Rightarrow> Process \<Rightarrow> Address \<Rightarrow> nat \<Rightarrow> bool" where
  "read_ok h p address i = (fst (readMemory h p (address + of_nat i) 1 None) = kSuccess)"

definition char_read :: "Host \<Rightarrow> Process \<Rightarrow> Address \<Rightarrow> nat \<Rightarrow> char" where
  "char_read h p address i = snd (snd (readMemory h p (address + of_nat i) 1 None)) 0"


text \<open>
  The sample host with memory that cannot be read above address 4098: a read there
  fails with last error 998 and no byte transferred.
\<close>

definition ex_host_unreadable :: Host where
  "ex_host_unreadable =
     ex_host\<lparr>ReadProcessMemory := (\<lambda>hdl a len.
        if a = 4096 \<or> a = 4097 \<or> a = 4098
        then \<lparr>cp_result = True, cp_bytes = len, cp_lastError = 0,
              cp_data = (\<lambda>i. ex_bytes (a + of_nat i))\<rparr>
        else \<lparr>cp_result = False, cp_bytes = 0, cp_lastError = 998,
              cp_data = (\<lambda>i. CHR ''?'')\<rparr>)\<rparr>"

section \<open>Results\<close>

subsection \<open>\<open>wait\<close> on a terminated process\<close>

text \<open>
  What \<open>wait\<close> does on a terminated process. When \<open>_currentThread\<close> points to a
  registered thread, \<open>wait\<close> consumes no native event, whatever the event source holds
  (also when it holds nothing and a native wait would block for ever): it sets the stop
  event of that thread to \<open>kEventKill\<close>, changes nothing else and returns \<open>kSuccess\<close>.
  When \<open>_currentThread\<close> is null, \<open>wait\<close> fails its assertion.
\<close>

lemma wait_terminated_kill:
  assumes "pr_terminated p" and "pr_currentThread p = Some k" and "pr_threads p k = Some t"
  shows "wait h rs p =
           Returned kSuccess
             (p\<lparr>pr_threads := (pr_threads p)
                  (k \<mapsto> t\<lparr>th_stopInfo := (th_stopInfo t)\<lparr>event := kEventKill\<rparr>\<rparr>)\<rparr>) rs"
  using assms by (simp add: wait_def)

lemma wait_terminated_null:
  "pr_terminated p \<Longrightarrow> pr_currentThread p = None \<Longrightarrow> wait h rs p = Aborted"
  by (simp add: wait_def)

text \<open>
  Claim C1 does not hold of the code on a process whose last \<open>wait\<close> has failed. From the
  sample process, a \<open>wait\<close> whose native wait fails (last error 6) returns the translated
  error and leaves \<open>_currentThread\<close> null; \<open>terminate\<close> then succeeds and sets
  \<open>_terminated\<close>; the next \<open>wait\<close> fails the assertion \<open>_currentThread != nullptr\<close>
  instead of reporting a kill and returning \<open>kSuccess\<close>.
\<close>

theorem wait_terminated_null_thread:
  "wait ex_host [Inl 6] ex_proc = Returned kErrorUnknown (ex_proc\<lparr>pr_currentThread := None\<rparr>) []
   \<and> terminate ex_host (ex_proc\<lparr>pr_currentThread := None\<rparr>)
       = (kSuccess, ex_proc\<lparr>pr_currentThread := None, pr_terminated := True\<rparr>)
   \<and> pr_terminated (ex_proc\<lparr>pr_currentThread := None, pr_terminated := True\<rparr>)
   \<and> wait ex_host [] (ex_proc\<lparr>pr_currentThread := None, pr_terminated := True\<rparr>) = Aborted"
  by (simp add: wait_def terminate_def ex_proc_def ex_host_def ex_TranslateError_def)

text \<open>
  So the process is no longer alive, and the \<open>wait\<close> that follows does not return
  \<open>kSuccess\<close>.
\<close>

theorem wait_terminated_null_thread_witness:
  "\<not> isAlive (ex_proc\<lparr>pr_currentThread := None, pr_terminated := True\<rparr>)
   \<and> wait ex_host [] (ex_proc\<lparr>pr_currentThread := None, pr_terminated := True\<rparr>)
       \<noteq> Returned kSuccess (ex_proc\<lparr>pr_currentThread := None, pr_terminated := True\<rparr>) []"
  using wait_terminated_null_thread by (simp add: isAlive_def)

subsection \<open>The process-exited event\<close>

lemma dom_single: "card (dom m) = 1 \<Longrightarrow> m k = Some t \<Longrightarrow> dom m = {k}"
proof -
  assume "card (dom m) = 1" and k: "m k = Some t"
  then obtain x where x: "dom m = {x}"
    by (auto simp: card_1_singleton_iff)
  from k have "k \<in> dom m" by (rule domI)
  with x show "dom m = {k}" by simp
qed

lemma on_exit_process_Stop:
  assumes "on_exit_process h de p = Stop error p'"
  shows "dom (pr_threads p) = {dwThreadId de} \<and> dom (pr_threads p') = {dwThreadId de}
         \<and> pr_currentThread p' = Some (dwThreadId de) \<and> pr_terminated p'"
proof -
  from assms have c: "card (dom (pr_threads p)) = 1"
    by (auto simp: on_exit_process_def split: if_splits)
  from assms obtain t where t: "pr_threads p (dwThreadId de) = Some t"
    by (auto simp: on_exit_process_def split: if_splits option.splits)
  have d: "dom (pr_threads p) = {dwThreadId de}"
    using c t by (rule dom_single)
  from assms c t d show ?thesis
    by (clarsimp simp: on_exit_process_def Let_def split: checked.splits sum.splits)
qed

lemma on_exit_process_not_Continue: "on_exit_process h de p \<noteq> Continue p'"
  by (auto simp: on_exit_process_def Let_def split: option.splits checked.splits sum.splits)

lemma wait_event_terminated:
  assumes "dwDebugEventCode de \<noteq> EXIT_PROCESS_DEBUG_EVENT"
    and "wait_event h de p = Stop error p' \<or> wait_event h de p = Continue p'"
  shows "pr_terminated p' = pr_terminated p"
  using assms
  by (auto simp: wait_event_def on_create_process_def on_create_thread_def
        on_exit_thread_def on_stop_event_def insert_thread_def removeThread_def Let_def
      split: if_splits option.splits checked.splits prod.splits)

lemma wait_loop_terminated:
  "wait_loop h rs p = Returned error p' rs' \<Longrightarrow> \<not> pr_terminated p \<Longrightarrow> pr_terminated p'
   \<Longrightarrow> \<exists>k. dom (pr_threads p') = {k} \<and> pr_currentThread p' = Some k"
proof (induction h rs p rule: wait_loop.induct)
  case (1 h p)
  then show ?case by simp
next
  case (2 h e rs p)
  then show ?case by auto
next
  case (3 h de rs p)
  let ?p0 = "p\<lparr>pr_currentThread := None\<rparr>"
  show ?case
  proof (cases "dwDebugEventCode de = EXIT_PROCESS_DEBUG_EVENT")
    case True
    then have ev: "wait_event h de ?p0 = on_exit_process h de ?p0"
      by (simp add: wait_event_def)
    from "3.prems"(1) ev obtain e where "on_exit_process h de ?p0 = Stop e p'"
      by (auto simp: on_exit_process_not_Continue split: step.splits)
    from on_exit_process_Stop [OF this] show ?thesis by blast
  next
    case False
    show ?thesis
    proof (cases "wait_event h de ?p0")
      case Bug
      with "3.prems" show ?thesis by simp
    next
      case (Stop e q)
      with "3.prems"(1) have "q = p'" by simp
      with Stop False wait_event_terminated [of de h ?p0 e p'] "3.prems" show ?thesis
        by simp
    next
      case (Continue q)
      with False wait_event_terminated [of de h ?p0 undefined q] "3.prems"
      have "\<not> pr_terminated q" by simp
      with Continue "3.prems" "3.IH" [of q] show ?thesis by simp
    qed
  qed
qed

text \<open>
  Claim C2. Let \<open>de\<close> be a process-exited event that the loop of \<open>wait\<close> harvests with
  the process in state \<open>p\<close>. If the thread set of \<open>p\<close> does not hold exactly one thread, the
  call fails an assertion. If the call completes, whatever code it returns, the thread
  set held exactly one thread at that moment, the thread \<open>de.dwThreadId\<close> that reports the
  event; it still does on return, where that thread is the current thread and the process
  is terminated. The call never blocks on such an event. Last, every completed \<open>wait\<close> that
  turns a live process into a terminated one returns with exactly one registered thread,
  the current one.
\<close>

theorem wait_exit_process_one_thread:
  assumes "dwDebugEventCode de = EXIT_PROCESS_DEBUG_EVENT"
  shows "(card (dom (pr_threads p)) \<noteq> 1 \<longrightarrow> wait_loop h (Inr de # rs) p = Aborted)
       \<and> (\<forall>error p' rs'. wait_loop h (Inr de # rs) p = Returned error p' rs' \<longrightarrow>
             dom (pr_threads p) = {dwThreadId de} \<and> dom (pr_threads p') = {dwThreadId de}
             \<and> pr_currentThread p' = Some (dwThreadId de) \<and> pr_terminated p' \<and> rs' = rs)
       \<and> wait_loop h (Inr de # rs) p \<noteq> Blocked
       \<and> (\<forall>rs0 p0 error p' rs'.
             \<not> pr_terminated p0 \<and> wait h rs0 p0 = Returned error p' rs' \<and> pr_terminated p' \<longrightarrow>
             (\<exists>k. dom (pr_threads p') = {k} \<and> pr_currentThread p' = Some k))"
proof -
  let ?p0 = "p\<lparr>pr_currentThread := None\<rparr>"
  have ev: "wait_event h de ?p0 = on_exit_process h de ?p0"
    using assms by (simp add: wait_event_def)
  have a: "card (dom (pr_threads p)) \<noteq> 1 \<longrightarrow> wait_loop h (Inr de # rs) p = Aborted"
    by (simp add: ev on_exit_process_def)
  have b: "\<forall>error p' rs'. wait_loop h (Inr de # rs) p = Returned error p' rs' \<longrightarrow>
             dom (pr_threads p) = {dwThreadId de} \<and> dom (pr_threads p') = {dwThreadId de}
             \<and> pr_currentThread p' = Some (dwThreadId de) \<and> pr_terminated p' \<and> rs' = rs"
  proof (intro allI impI)
    fix error p' rs'
    assume r: "wait_loop h (Inr de # rs) p = Returned error p' rs'"
    then have "on_exit_process h de ?p0 = Stop error p'" and "rs' = rs"
      by (auto simp: ev on_exit_process_not_Continue split: step.splits)
    with on_exit_process_Stop [of h de ?p0 error p'] show
      "dom (pr_threads p) = {dwThreadId de} \<and> dom (pr_threads p') = {dwThreadId de}
         \<and> pr_currentThread p' = Some (dwThreadId de) \<and> pr_terminated p' \<and> rs' = rs"
      by simp
  qed
  have c: "wait_loop h (Inr de # rs) p \<noteq> Blocked"
    by (auto simp: ev on_exit_process_not_Continue split: step.splits)
  have d: "\<forall>rs0 p0 error p' rs'.
             \<not> pr_terminated p0 \<and> wait h rs0 p0 = Returned error p' rs' \<and> pr_terminated p' \<longrightarrow>
             (\<exists>k. dom (pr_threads p') = {k} \<and> pr_currentThread p' = Some k)"
    using wait_loop_terminated by (auto simp: wait_def)
  from a b c d show ?thesis by blast
qed

text \<open>
  The theorem at the sample process, which has the one thread 7: the exit event of thread 7
  completes, and the same event fails an assertion on a process with no thread or with two.
\<close>

theorem wait_exit_process_one_thread_witness:
  "dwDebugEventCode (ex_event 5 7) = EXIT_PROCESS_DEBUG_EVENT
   \<and> card (dom (pr_threads ex_proc)) = 1
   \<and> wait_loop ex_host [Inr (ex_event 5 7)] ex_proc =
       Returned kSuccess
         (ex_proc\<lparr>pr_terminated := True,
            pr_pendingEvent := \<lparr>pe_valid = True, pe_tid = 7\<rparr>,
            pr_threads := [7 \<mapsto> ex_thread\<lparr>th_state := kTerminated,
               th_stopInfo := \<lparr>event = kEventExit, reason = kReasonNone, status = 3\<rparr>\<rparr>]\<rparr>) []
   \<and> dom (pr_threads ex_proc) = {7}
   \<and> wait_loop ex_host [Inr (ex_event 5 7)] (ex_proc\<lparr>pr_threads := Map.empty\<rparr>) = Aborted
   \<and> wait_loop ex_host [Inr (ex_event 5 7)]
        (ex_proc\<lparr>pr_threads := [7 \<mapsto> ex_thread, 8 \<mapsto> ex_thread]\<rparr>) = Aborted"
proof -
  have c: "dwDebugEventCode (ex_event 5 7) = EXIT_PROCESS_DEBUG_EVENT"
    by (simp add: ex_event_def)
  have r: "wait_loop ex_host [Inr (ex_event 5 7)] ex_proc =
       Returned kSuccess
         (ex_proc\<lparr>pr_terminated := True,
            pr_pendingEvent := \<lparr>pe_valid = True, pe_tid = 7\<rparr>,
            pr_threads := [7 \<mapsto> ex_thread\<lparr>th_state := kTerminated,
               th_stopInfo := \<lparr>event = kEventExit, reason = kReasonNone, status = 3\<rparr>\<rparr>]\<rparr>) []"
    by (simp add: wait_event_def on_exit_process_def ex_event_def ex_proc_def ex_host_def
          ex_thread_def Thread_ctor_def PendingEvent_set_def PendingEvent_init_def)
  have e: "card (dom (pr_threads (ex_proc\<lparr>pr_threads := Map.empty\<rparr>))) \<noteq> 1"
    by simp
  have t: "card (dom (pr_threads (ex_proc\<lparr>pr_threads := [7 \<mapsto> ex_thread, 8 \<mapsto> ex_thread]\<rparr>))) \<noteq> 1"
    by simp
  note w = wait_exit_process_one_thread [OF c, of _ ex_host "[]"]
  have "dom (pr_threads ex_proc) = {dwThreadId (ex_event 5 7)}"
    using w [of ex_proc, THEN conjunct2, THEN conjunct1, rule_format, OF r]
    by (rule conjunct1)
  then have "dom (pr_threads ex_proc) = {7}"
    by (simp add: ex_event_def)
  moreover
  have "wait_loop ex_host [Inr (ex_event 5 7)] (ex_proc\<lparr>pr_threads := Map.empty\<rparr>) = Aborted"
    using w [of "ex_proc\<lparr>pr_threads := Map.empty\<rparr>", THEN conjunct1, rule_format, OF e] .
  moreover
  have "wait_loop ex_host [Inr (ex_event 5 7)]
        (ex_proc\<lparr>pr_threads := [7 \<mapsto> ex_thread, 8 \<mapsto> ex_thread]\<rparr>) = Aborted"
    using w [of "ex_proc\<lparr>pr_threads := [7 \<mapsto> ex_thread, 8 \<mapsto> ex_thread]\<rparr>",
             THEN conjunct1, rule_format, OF t] .
  moreover have "card (dom (pr_threads ex_proc)) = 1"
    by (simp add: ex_proc_def)
  ultimately show ?thesis using c r by simp
qed

subsection \<open>\<open>readMemory\<close> and \<open>writeMemory\<close>\<close>

text \<open>
  Claim C3, as amended. \<open>readMemory\<close> and \<open>writeMemory\<close> store the count the native copy
  reports in a supplied out-parameter, whether or not the copy fails. They return
  \<open>kSuccess\<close> when the native copy succeeds and when it fails with \<open>ERROR_PARTIAL_COPY\<close>
  and a count that is not zero; in every other case, that is when the native copy fails
  with another error or with a count of zero, they return the translation of the native
  error. The code returned does not depend on the out-parameter being supplied.
\<close>

theorem copy_result_and_count:
  "(let r = ReadProcessMemory h (pr_handle p) address len;
        res = readMemory h p address len (Some v)
    in fst (snd res) = Some (cp_bytes r)
       \<and> fst res =
           (if cp_result r \<or> (cp_lastError r = ERROR_PARTIAL_COPY \<and> cp_bytes r \<noteq> 0)
            then kSuccess else TranslateError h (cp_lastError r)))
   \<and> (let r = WriteProcessMemory h (pr_handle p) address data len;
           res = writeMemory h p address data len (Some v)
       in snd res = Some (cp_bytes r)
          \<and> fst res =
              (if cp_result r \<or> (cp_lastError r = ERROR_PARTIAL_COPY \<and> cp_bytes r \<noteq> 0)
               then kSuccess else TranslateError h (cp_lastError r)))
   \<and> fst (readMemory h p address len None) = fst (readMemory h p address len (Some v))
   \<and> fst (writeMemory h p address data len None) = fst (writeMemory h p address data len (Some v))"
  by (simp add: readMemory_def writeMemory_def Let_def)

text \<open>
  The theorem at a host whose copies fail with \<open>ERROR_PARTIAL_COPY\<close>: with 3 bytes
  transferred the result is \<open>kSuccess\<close> and the count 3, with none it is the translated error
  and the count 0.
\<close>

theorem copy_result_and_count_witness:
  "readMemory (ex_host_copy False 3 299) ex_proc 4096 8 (Some 0) = (kSuccess, Some 3, (\<lambda>i. CHR 0x00))
   \<and> writeMemory (ex_host_copy False 3 299) ex_proc 4096 ''abcdefgh'' 8 (Some 0) = (kSuccess, Some 3)
   \<and> fst (readMemory (ex_host_copy False 0 299) ex_proc 4096 8 (Some 7)) = kErrorUnknown
   \<and> fst (snd (readMemory (ex_host_copy False 0 299) ex_proc 4096 8 (Some 7))) = Some 0"
proof -
  have a: "readMemory (ex_host_copy False 3 299) ex_proc 4096 8 (Some 0)
             = (kSuccess, Some 3, (\<lambda>i. CHR 0x00))"
    using copy_result_and_count [of "ex_host_copy False 3 299" ex_proc 4096 8 0 "[]", THEN conjunct1]
    by (simp add: ex_host_copy_def ex_host_def Let_def prod_eq_iff readMemory_def)
  have b: "writeMemory (ex_host_copy False 3 299) ex_proc 4096 ''abcdefgh'' 8 (Some 0)
             = (kSuccess, Some 3)"
    using copy_result_and_count [of "ex_host_copy False 3 299" ex_proc 4096 8 0 "''abcdefgh''",
            THEN conjunct2, THEN conjunct1]
    by (simp add: ex_host_copy_def ex_host_def Let_def prod_eq_iff)
  have c: "fst (readMemory (ex_host_copy False 0 299) ex_proc 4096 8 (Some 7)) = kErrorUnknown
     \<and> fst (snd (readMemory (ex_host_copy False 0 299) ex_proc 4096 8 (Some 7))) = Some 0"
    using copy_result_and_count [of "ex_host_copy False 0 299" ex_proc 4096 8 7 "[]", THEN conjunct1]
    by (simp add: ex_host_copy_def ex_host_def Let_def ex_TranslateError_def)
  from a b c show ?thesis by (intro conjI) simp_all
qed

text \<open>
  Claim C3 as stated fails in its last part, that a failure code is returned only when
  zero bytes were transferred: a native copy that fails with an error other than
  \<open>ERROR_PARTIAL_COPY\<close> (here 6) and reports 8 bytes yields the translated error, with the
  count 8.
\<close>

theorem copy_failure_counterexample:
  "readMemory (ex_host_copy False 8 6) ex_proc 4096 8 (Some 0)
     = (kErrorUnknown, Some 8, (\<lambda>i. CHR 0x00))
   \<and> writeMemory (ex_host_copy False 8 6) ex_proc 4096 ''abcdefgh'' 8 (Some 0)
     = (kErrorUnknown, Some 8)"
  by (simp add: readMemory_def writeMemory_def ex_host_copy_def ex_host_def
        ex_TranslateError_def)

subsection \<open>The thread-created event\<close>

lemma on_create_thread_eq:
  "on_create_thread h de p =
     (let t = Thread_ctor (dwThreadId de) (hThread de);
          p2 = p\<lparr>pr_threads := (pr_threads p)(dwThreadId de \<mapsto> snd (Thread_resume h t)),
                 pr_currentThread := Some (dwThreadId de)\<rparr>
      in if fst (Thread_resume h t) = kSuccess then Continue p2
         else Stop (fst (Thread_resume h t)) p2)"
  by (simp add: on_create_thread_def insert_thread_def Thread_ctor_def Let_def
        split: prod.splits)

lemma wait_event_Stop_success:
  "wait_event h de p = Stop kSuccess p' \<Longrightarrow>
     dwDebugEventCode de \<noteq> CREATE_THREAD_DEBUG_EVENT
     \<and> dwDebugEventCode de \<noteq> EXIT_THREAD_DEBUG_EVENT"
  by (auto simp: wait_event_def on_create_thread_def on_exit_thread_def Let_def
      split: if_splits option.splits prod.splits)

lemma wait_loop_success_last:
  "wait_loop h rs p = Returned kSuccess p' rs' \<Longrightarrow>
     \<exists>pre r. rs = pre @ r # rs'
       \<and> (\<forall>d. r = Inr d \<longrightarrow> dwDebugEventCode d \<noteq> CREATE_THREAD_DEBUG_EVENT
                                \<and> dwDebugEventCode d \<noteq> EXIT_THREAD_DEBUG_EVENT)"
proof (induction h rs p rule: wait_loop.induct)
  case (1 h p)
  then show ?case by simp
next
  case (2 h e rs p)
  then have "Inl e # rs = [] @ Inl e # rs'" by simp
  then show ?case by blast
next
  case (3 h de rs p)
  let ?p0 = "p\<lparr>pr_currentThread := None\<rparr>"
  show ?case
  proof (cases "wait_event h de ?p0")
    case Bug
    with "3.prems" show ?thesis by simp
  next
    case (Stop e q)
    with "3.prems" have "e = kSuccess" "q = p'" "rs' = rs" by simp_all
    with Stop wait_event_Stop_success [of h de ?p0 p']
    have "Inr de # rs = [] @ Inr de # rs'
          \<and> (\<forall>d. Inr de = (Inr d :: wait_reply) \<longrightarrow>
                 dwDebugEventCode d \<noteq> CREATE_THREAD_DEBUG_EVENT
                 \<and> dwDebugEventCode d \<noteq> EXIT_THREAD_DEBUG_EVENT)"
      by simp
    then show ?thesis by blast
  next
    case (Continue q)
    with "3.prems" "3.IH" [of q] obtain pre r where
      "rs = pre @ r # rs'"
      "\<forall>d. r = Inr d \<longrightarrow> dwDebugEventCode d \<noteq> CREATE_THREAD_DEBUG_EVENT
                        \<and> dwDebugEventCode d \<noteq> EXIT_THREAD_DEBUG_EVENT"
      by auto
    then have "Inr de # rs = (Inr de # pre) @ r # rs'
        \<and> (\<forall>d. r = Inr d \<longrightarrow> dwDebugEventCode d \<noteq> CREATE_THREAD_DEBUG_EVENT
                        \<and> dwDebugEventCode d \<noteq> EXIT_THREAD_DEBUG_EVENT)"
      by simp
    then show ?thesis by blast
  qed
qed

text \<open>
  Claim C4, as amended. Let \<open>de\<close> be a thread-created event that the loop of \<open>wait\<close>
  harvests. \<open>wait\<close> registers the new thread under \<open>de.dwThreadId\<close>, makes it the current
  thread and resumes it at once. If \<open>resume\<close> returns \<open>kSuccess\<close>, the loop goes back to the
  native event source with the rest of the events; if not, \<open>wait\<close> returns the code of
  \<open>resume\<close> and leaves the next event unconsumed. No stop is surfaced either way: the last
  event consumed by a \<open>wait\<close> on a live process that returns \<open>kSuccess\<close> is never a
  thread-created event.
\<close>

theorem wait_create_thread:
  assumes "dwDebugEventCode de = CREATE_THREAD_DEBUG_EVENT"
  shows "wait_loop h (Inr de # rs) p =
          (let t = Thread_ctor (dwThreadId de) (hThread de);
               p2 = p\<lparr>pr_threads := (pr_threads p)(dwThreadId de \<mapsto> snd (Thread_resume h t)),
                      pr_currentThread := Some (dwThreadId de)\<rparr>
           in if fst (Thread_resume h t) = kSuccess then wait_loop h rs p2
              else Returned (fst (Thread_resume h t)) p2 rs)
       \<and> (\<forall>rs0 p0 p' rs'.
             \<not> pr_terminated p0 \<and> wait h rs0 p0 = Returned kSuccess p' rs' \<longrightarrow>
             (\<exists>pre r. rs0 = pre @ r # rs'
                \<and> (\<forall>d. r = Inr d \<longrightarrow> dwDebugEventCode d \<noteq> CREATE_THREAD_DEBUG_EVENT)))"
proof -
  have "wait_event h de (p\<lparr>pr_currentThread := None\<rparr>)
          = on_create_thread h de (p\<lparr>pr_currentThread := None\<rparr>)"
    using assms by (simp add: wait_event_def)
  then have a: "wait_loop h (Inr de # rs) p =
          (let t = Thread_ctor (dwThreadId de) (hThread de);
               p2 = p\<lparr>pr_threads := (pr_threads p)(dwThreadId de \<mapsto> snd (Thread_resume h t)),
                      pr_currentThread := Some (dwThreadId de)\<rparr>
           in if fst (Thread_resume h t) = kSuccess then wait_loop h rs p2
              else Returned (fst (Thread_resume h t)) p2 rs)"
    by (simp add: on_create_thread_eq Let_def)
  have b: "\<forall>rs0 p0 p' rs'.
             \<not> pr_terminated p0 \<and> wait h rs0 p0 = Returned kSuccess p' rs' \<longrightarrow>
             (\<exists>pre r. rs0 = pre @ r # rs'
                \<and> (\<forall>d. r = Inr d \<longrightarrow> dwDebugEventCode d \<noteq> CREATE_THREAD_DEBUG_EVENT))"
  proof (intro allI impI)
    fix rs0 p0 p' rs'
    assume "\<not> pr_terminated p0 \<and> wait h rs0 p0 = Returned kSuccess p' rs'"
    then have "wait_loop h rs0 p0 = Returned kSuccess p' rs'"
      by (auto simp: wait_def)
    from wait_loop_success_last [OF this]
    show "\<exists>pre r. rs0 = pre @ r # rs'
                \<and> (\<forall>d. r = Inr d \<longrightarrow> dwDebugEventCode d \<noteq> CREATE_THREAD_DEBUG_EVENT)"
      by blast
  qed
  from a b show ?thesis by blast
qed

text \<open>
  The theorem at the sample process: the creation of thread 9 is absorbed, and the
  breakpoint of thread 7 that follows is the stop the call returns with.
\<close>

theorem wait_create_thread_witness:
  "dwDebugEventCode (ex_event 2 9) = CREATE_THREAD_DEBUG_EVENT
   \<and> wait_loop ex_host [Inr (ex_event 2 9), Inr (ex_event 1 7)] ex_proc =
       wait_loop ex_host [Inr (ex_event 1 7)]
         (ex_proc\<lparr>pr_threads := [7 \<mapsto> ex_thread, 9 \<mapsto> (Thread_ctor 9 90)\<lparr>th_state := kRunning\<rparr>],
                  pr_currentThread := Some 9\<rparr>)
   \<and> wait_loop ex_host [Inr (ex_event 1 7)]
         (ex_proc\<lparr>pr_threads := [7 \<mapsto> ex_thread, 9 \<mapsto> (Thread_ctor 9 90)\<lparr>th_state := kRunning\<rparr>],
                  pr_currentThread := Some 9\<rparr>) =
       Returned kSuccess
         (ex_proc\<lparr>pr_threads :=
              [7 \<mapsto> ex_thread\<lparr>th_state := kSuspended,
                    th_stopInfo := \<lparr>event = kEventStop, reason = kReasonBreakpoint, status = 0\<rparr>\<rparr>,
               9 \<mapsto> (Thread_ctor 9 90)\<lparr>th_state := kRunning\<rparr>],
            pr_currentThread := Some 7,
            pr_pendingEvent := \<lparr>pe_valid = True, pe_tid = 7\<rparr>\<rparr>) []"
proof -
  have c: "dwDebugEventCode (ex_event 2 9) = CREATE_THREAD_DEBUG_EVENT"
    by (simp add: ex_event_def)
  have "wait_loop ex_host [Inr (ex_event 2 9), Inr (ex_event 1 7)] ex_proc =
       wait_loop ex_host [Inr (ex_event 1 7)]
         (ex_proc\<lparr>pr_threads := [7 \<mapsto> ex_thread, 9 \<mapsto> (Thread_ctor 9 90)\<lparr>th_state := kRunning\<rparr>],
                  pr_currentThread := Some 9\<rparr>)"
    using wait_create_thread [OF c, of ex_host "[Inr (ex_event 1 7)]" ex_proc, THEN conjunct1]
    by (simp add: ex_event_def ex_host_def ex_proc_def Let_def)
  moreover have "wait_loop ex_host [Inr (ex_event 1 7)]
         (ex_proc\<lparr>pr_threads := [7 \<mapsto> ex_thread, 9 \<mapsto> (Thread_ctor 9 90)\<lparr>th_state := kRunning\<rparr>],
                  pr_currentThread := Some 9\<rparr>) =
       Returned kSuccess
         (ex_proc\<lparr>pr_threads :=
              [7 \<mapsto> ex_thread\<lparr>th_state := kSuspended,
                    th_stopInfo := \<lparr>event = kEventStop, reason = kReasonBreakpoint, status = 0\<rparr>\<rparr>,
               9 \<mapsto> (Thread_ctor 9 90)\<lparr>th_state := kRunning\<rparr>],
            pr_currentThread := Some 7,
            pr_pendingEvent := \<lparr>pe_valid = True, pe_tid = 7\<rparr>\<rparr>) []"
    by (simp add: wait_event_def on_stop_event_def ex_event_def ex_proc_def ex_host_def
          ex_thread_def Thread_ctor_def PendingEvent_set_def PendingEvent_init_def fun_upd_twist)
  ultimately show ?thesis using c by simp
qed

text \<open>
  Claim C4 as stated fails where \<open>resume\<close> fails: \<open>wait\<close> then returns on the
  thread-created event, with the code of \<open>resume\<close>, and does not go back to the event
  source, where the next event is still waiting.
\<close>

theorem wait_create_thread_counterexample:
  "wait ex_host_resume_fails [Inr (ex_event 2 9), Inr (ex_event 1 7)] ex_proc =
     Returned kErrorUnknown
       (ex_proc\<lparr>pr_threads := [7 \<mapsto> ex_thread, 9 \<mapsto> Thread_ctor 9 90],
                pr_currentThread := Some 9\<rparr>)
       [Inr (ex_event 1 7)]"
  by (simp add: wait_def wait_event_def on_create_thread_def insert_thread_def ex_event_def
        ex_proc_def ex_host_resume_fails_def ex_host_def Thread_ctor_def)

subsection \<open>\<open>PendingEvent\<close>\<close>





subsection \<open>\<open>readString\<close>\<close>

lemma readString_loop_ok:
  "(\<forall>j. i \<le> j \<and> j < len \<longrightarrow> read_ok h p address j) \<Longrightarrow>
     readString_loop h p address len i str =
       (kSuccess, str @ takeWhile (\<lambda>c. c \<noteq> CHR 0x00) (map (char_read h p address) [i..<len]))"
proof (induction h p address len i str rule: readString_loop.induct)
  case (1 h p address len i str)
  show ?case
  proof (cases "i < len")
    case False
    then show ?thesis by (simp add: readString_loop.simps)
  next
    case True
    with "1.prems" have ok: "fst (readMemory h p (address + of_nat i) 1 None) = kSuccess"
      by (simp add: read_ok_def)
    from True have upt: "[i..<len] = i # [Suc i..<len]"
      by (simp add: upt_rec)
    have ch: "snd (snd (readMemory h p (address + of_nat i) 1 None)) 0 = char_read h p address i"
      by (simp add: char_read_def)
    show ?thesis
    proof (cases "char_read h p address i = CHR 0x00")
      case True
      with \<open>i < len\<close> ok upt ch show ?thesis
        by (subst readString_loop.simps) (simp add: Let_def)
    next
      case False
      from "1.prems" have "\<forall>j. i + 1 \<le> j \<and> j < len \<longrightarrow> read_ok h p address j"
        by simp
      with "1.IH" [OF \<open>i < len\<close> refl refl refl] ok False ch
      have "readString_loop h p address len (i + 1) (str @ [char_read h p address i]) =
          (kSuccess, (str @ [char_read h p address i])
             @ takeWhile (\<lambda>c. c \<noteq> CHR 0x00) (map (char_read h p address) [i + 1..<len]))"
        by simp
      with \<open>i < len\<close> ok upt False ch show ?thesis
        by (subst readString_loop.simps) (simp add: Let_def)
    qed
  qed
qed

lemma readString_loop_trunc:
  "i \<le> k \<Longrightarrow> k < len \<Longrightarrow>
   (\<forall>j. i \<le> j \<and> j \<le> k \<longrightarrow> read_ok h p address j) \<Longrightarrow>
   char_read h p address k = CHR 0x00 \<Longrightarrow>
   (\<forall>j. i \<le> j \<and> j < k \<longrightarrow> char_read h p address j \<noteq> CHR 0x00) \<Longrightarrow>
     readString_loop h p address len i str =
       (kSuccess, str @ map (char_read h p address) [i..<k])"
proof (induction h p address len i str rule: readString_loop.induct)
  case (1 h p address len i str)
  from "1.prems" have lt: "i < len" by simp
  from "1.prems" have ok: "fst (readMemory h p (address + of_nat i) 1 None) = kSuccess"
    by (simp add: read_ok_def)
  have ch: "snd (snd (readMemory h p (address + of_nat i) 1 None)) 0 = char_read h p address i"
    by (simp add: char_read_def)
  show ?case
  proof (cases "i = k")
    case True
    with "1.prems" lt ok ch show ?thesis
      by (subst readString_loop.simps) (simp add: Let_def)
  next
    case False
    with "1.prems" have ik: "i < k" by simp
    with "1.prems" have nz: "char_read h p address i \<noteq> CHR 0x00" by simp
    from ik have upt: "[i..<k] = i # [Suc i..<k]"
      by (simp add: upt_rec)
    from "1.prems" ik have
      "i + 1 \<le> k" "k < len"
      "\<forall>j. i + 1 \<le> j \<and> j \<le> k \<longrightarrow> read_ok h p address j"
      "char_read h p address k = CHR 0x00"
      "\<forall>j. i + 1 \<le> j \<and> j < k \<longrightarrow> char_read h p address j \<noteq> CHR 0x00"
      by simp_all
    with "1.IH" [OF lt refl refl refl] ok nz ch
    have "readString_loop h p address len (i + 1) (str @ [char_read h p address i]) =
          (kSuccess, (str @ [char_read h p address i]) @ map (char_read h p address) [i + 1..<k])"
      by simp
    with lt ok upt nz ch show ?thesis
      by (subst readString_loop.simps) (simp add: Let_def)
  qed
qed

lemma takeWhile_all:
  assumes "\<forall>j<len. f j \<noteq> z"
  shows "takeWhile (\<lambda>c. c \<noteq> z) (map f [0..<len]) = map f [0..<len]"
  using assms by (simp add: takeWhile_eq_all_conv)

text \<open>
  Claim C6, as amended. In a call \<open>readString(address, str, length)\<close>, if the reads at
  the indices up to \<open>k\<close> succeed, \<open>k\<close> being below \<open>length\<close>, and the first null
  character is the one read at \<open>k\<close>, the call returns \<open>kSuccess\<close> and has appended to
  \<open>str\<close> the \<open>k\<close> characters before it; the memory after the terminator is not read
  and need not be readable. If all \<open>length\<close> reads succeed and none of the characters
  is null, the call returns \<open>kSuccess\<close> and has appended all of them; \<open>str\<close> then has
  exactly the requested length when it was empty at the call.
\<close>

theorem readString_appends:
  "(\<forall>k<len. (\<forall>i\<le>k. read_ok h p address i)
              \<and> char_read h p address k = CHR 0x00
              \<and> (\<forall>j<k. char_read h p address j \<noteq> CHR 0x00) \<longrightarrow>
            readString h p address str len nread
              = (kSuccess, str @ map (char_read h p address) [0..<k], nread))
   \<and> ((\<forall>i<len. read_ok h p address i)
          \<and> (\<forall>j<len. char_read h p address j \<noteq> CHR 0x00) \<longrightarrow>
            readString h p address str len nread
              = (kSuccess, str @ map (char_read h p address) [0..<len], nread)
            \<and> length (fst (snd (readString h p address [] len nread))) = len)"
proof -
  have a: "\<forall>k<len. (\<forall>i\<le>k. read_ok h p address i)
              \<and> char_read h p address k = CHR 0x00
              \<and> (\<forall>j<k. char_read h p address j \<noteq> CHR 0x00) \<longrightarrow>
            readString h p address str len nread
              = (kSuccess, str @ map (char_read h p address) [0..<k], nread)"
  proof (intro allI impI)
    fix k
    assume "k < len"
      and "(\<forall>i\<le>k. read_ok h p address i)
              \<and> char_read h p address k = CHR 0x00
              \<and> (\<forall>j<k. char_read h p address j \<noteq> CHR 0x00)"
    then have "readString_loop h p address len 0 str =
       (kSuccess, str @ map (char_read h p address) [0..<k])"
      by (intro readString_loop_trunc) simp_all
    then show "readString h p address str len nread
              = (kSuccess, str @ map (char_read h p address) [0..<k], nread)"
      by (simp add: readString_def)
  qed
  have b: "(\<forall>i<len. read_ok h p address i)
          \<and> (\<forall>j<len. char_read h p address j \<noteq> CHR 0x00) \<longrightarrow>
            readString h p address str len nread
              = (kSuccess, str @ map (char_read h p address) [0..<len], nread)
            \<and> length (fst (snd (readString h p address [] len nread))) = len"
  proof
    assume h: "(\<forall>i<len. read_ok h p address i)
          \<and> (\<forall>j<len. char_read h p address j \<noteq> CHR 0x00)"
    then have loop: "\<And>s. readString_loop h p address len 0 s =
       (kSuccess, s @ takeWhile (\<lambda>c. c \<noteq> CHR 0x00) (map (char_read h p address) [0..<len]))"
      by (intro readString_loop_ok) simp
    from h show "readString h p address str len nread
              = (kSuccess, str @ map (char_read h p address) [0..<len], nread)
            \<and> length (fst (snd (readString h p address [] len nread))) = len"
      by (simp add: readString_def loop takeWhile_all)
  qed
  from a b show ?thesis by (rule conjI)
qed

lemma ex_read_ok: "read_ok ex_host ex_proc a i"
  by (simp add: read_ok_def readMemory_def ex_host_def)

lemma ex_char_read: "char_read ex_host ex_proc a i = ex_bytes (a + of_nat i)"
  by (simp add: char_read_def readMemory_def ex_host_def)

text \<open>
  The theorem at the sample memory: from 4096 a bound of 8 stops at the null after
  \<open>hi\<close>, on the host where the memory behind that null cannot be read, and from 8192 a
  bound of 3 reads three \<open>z\<close>.
\<close>

theorem readString_appends_witness:
  "readString ex_host_unreadable ex_proc 4096 ''x'' 8 None = (kSuccess, ''xhi'', None)
   \<and> \<not> read_ok ex_host_unreadable ex_proc 4096 3
   \<and> readString ex_host ex_proc 8192 ''x'' 3 None = (kSuccess, ''xzzz'', None)
   \<and> length (fst (snd (readString ex_host ex_proc 8192 [] 3 None))) = 3"
proof -
  have r: "read_ok ex_host_unreadable ex_proc 4096 0"
    "read_ok ex_host_unreadable ex_proc 4096 1"
    "read_ok ex_host_unreadable ex_proc 4096 2"
    by (simp_all add: read_ok_def readMemory_def ex_host_unreadable_def ex_host_def)
  have nok: "\<not> read_ok ex_host_unreadable ex_proc 4096 3"
    by (simp add: read_ok_def readMemory_def ex_host_unreadable_def ex_host_def
          ex_TranslateError_def)
  have cr: "char_read ex_host_unreadable ex_proc 4096 0 = CHR ''h''"
    "char_read ex_host_unreadable ex_proc 4096 1 = CHR ''i''"
    "char_read ex_host_unreadable ex_proc 4096 2 = CHR 0x00"
    by (simp_all add: char_read_def readMemory_def ex_host_unreadable_def ex_host_def
          ex_bytes_def)
  from r have ok2: "\<forall>i\<le>2. read_ok ex_host_unreadable ex_proc 4096 i"
    by (auto simp: le_Suc_eq numeral_2_eq_2)
  from cr have z: "char_read ex_host_unreadable ex_proc 4096 2 = CHR 0x00
           \<and> (\<forall>j<2. char_read ex_host_unreadable ex_proc 4096 j \<noteq> CHR 0x00)"
    by (auto simp: less_Suc_eq numeral_2_eq_2)
  from cr have m2: "map (char_read ex_host_unreadable ex_proc 4096) [0..<2] = ''hi''"
    by (simp add: upt_rec numeral_2_eq_2)
  have ok3: "\<forall>i<3. read_ok ex_host ex_proc 8192 i"
    by (simp add: ex_read_ok)
  have nz: "\<forall>j<3. char_read ex_host ex_proc 8192 j \<noteq> CHR 0x00"
    by (simp add: ex_char_read ex_bytes_def less_Suc_eq numeral_3_eq_3)
  have m3: "map (char_read ex_host ex_proc 8192) [0..<3] = ''zzz''"
    by (simp add: ex_char_read ex_bytes_def upt_rec)
  have a: "readString ex_host_unreadable ex_proc 4096 ''x'' 8 None = (kSuccess, ''xhi'', None)"
    using readString_appends [of 8 ex_host_unreadable ex_proc 4096 "''x''" None,
            THEN conjunct1, THEN spec, of 2] ok2 z m2
    by simp
  have b: "readString ex_host ex_proc 8192 ''x'' 3 None = (kSuccess, ''xzzz'', None)"
    using readString_appends [of 3 ex_host ex_proc 8192 "''x''" None, THEN conjunct2] ok3 nz m3
    by simp
  have c: "length (fst (snd (readString ex_host ex_proc 8192 [] 3 None))) = 3"
    using readString_appends [of 3 ex_host ex_proc 8192 "[]" None, THEN conjunct2] ok3 nz
    by simp
  from a nok b c show ?thesis by (intro conjI)
qed

text \<open>
  Claim C6 as stated fails where \<open>str\<close> is not empty at the call: \<open>readString\<close> does not
  clear it. With \<open>str\<close> holding \<open>x\<close> and a bound of 1, the one read succeeds and finds no
  null, and \<open>str\<close> comes back with two characters.
\<close>

theorem readString_length_counterexample:
  "read_ok ex_host ex_proc 8192 0
   \<and> char_read ex_host ex_proc 8192 0 \<noteq> CHR 0x00
   \<and> readString ex_host ex_proc 8192 ''x'' 1 None = (kSuccess, ''xz'', None)
   \<and> length (fst (snd (readString ex_host ex_proc 8192 ''x'' 1 None))) = 2"
  by (simp add: read_ok_def char_read_def readString_def readString_loop.simps readMemory_def
        ex_host_def ex_bytes_def)

text \<open>
  Claim C7 does not hold of the code: \<open>readString\<close> never writes through \<open>nread\<close>. The
  call below transfers two bytes and returns \<open>kSuccess\<close>, and the variable \<open>nread\<close> points
  to keeps the 77 it held; \<open>readMemory\<close> on the same two bytes stores 2 there.
\<close>

theorem readString_nread_unwritten:
  "readString ex_host ex_proc 4096 [] 2 (Some 77) = (kSuccess, ''hi'', Some 77)
   \<and> fst (snd (readMemory ex_host ex_proc 4096 2 (Some 77))) = Some 2"
  by (simp add: readString_def readString_loop.simps readMemory_def ex_host_def ex_bytes_def)

text \<open>
  The out-parameter after that call is the 77 it held before, and not the count 2 of the
  bytes transferred.
\<close>

theorem readString_nread_unwritten_witness:
  "snd (snd (readString ex_host ex_proc 4096 [] 2 (Some 77))) = Some 77
   \<and> snd (snd (readString ex_host ex_proc 4096 [] 2 (Some 77))) \<noteq> Some 2"
  using readString_nread_unwritten by simp

text \<open>
  \<open>readString\<close> leaves \<open>nread\<close> alone on every input.
\<close>

lemma readString_keeps_nread: "snd (snd (readString h p address str len nread)) = nread"
  by (simp add: readString_def Let_def)

subsection \<open>\<open>updateInfo\<close>\<close>

text \<open>
  Claim C8. When the cached \<open>pid\<close> equals the pid of the process, \<open>updateInfo\<close> returns
  \<open>kErrorAlreadyExist\<close> and leaves the process, with every cached field, as it was. When
  it differs, \<open>updateInfo\<close> returns \<open>kSuccess\<close> and the cache holds the pid of the process,
  the CPU type and subtype, pointer size and OS names of the platform, little endian, and
  0 for the ids and flags. A second call right after any call is the no-op.
\<close>

theorem updateInfo_contract:
  "(pid (pr_info p) = pr_pid p \<longrightarrow> updateInfo h p = (kErrorAlreadyExist, p))
   \<and> (pid (pr_info p) \<noteq> pr_pid p \<longrightarrow>
        updateInfo h p =
          (kSuccess,
           p\<lparr>pr_info :=
               \<lparr>pid = pr_pid p, realUid = 0, realGid = 0,
                cpuType = GetCPUType h, cpuSubType = GetCPUSubType h,
                nativeCPUType = GetCPUType h, nativeCPUSubType = GetCPUSubType h,
                endian = kEndianLittle, pointerSize = GetPointerSize h, archFlags = 0,
                osType = GetOSTypeName h, osVendor = GetOSVendorName h\<rparr>\<rparr>))
   \<and> updateInfo h (snd (updateInfo h p)) = (kErrorAlreadyExist, snd (updateInfo h p))"
  by (cases "pr_info p") (simp add: updateInfo_def Let_def)

text \<open>
  The theorem at the sample process, whose cache is empty.
\<close>

theorem updateInfo_contract_witness:
  "pid (pr_info ex_proc) \<noteq> pr_pid ex_proc
   \<and> updateInfo ex_host ex_proc =
       (kSuccess,
        ex_proc\<lparr>pr_info :=
            \<lparr>pid = 4242, realUid = 0, realGid = 0, cpuType = 7, cpuSubType = 3,
             nativeCPUType = 7, nativeCPUSubType = 3, endian = kEndianLittle,
             pointerSize = 8, archFlags = 0, osType = ''windows'', osVendor = ''unknown''\<rparr>\<rparr>)
   \<and> updateInfo ex_host (snd (updateInfo ex_host ex_proc))
       = (kErrorAlreadyExist, snd (updateInfo ex_host ex_proc))"
proof -
  have ne: "pid (pr_info ex_proc) \<noteq> pr_pid ex_proc"
    by (simp add: ex_proc_def ex_info_def)
  have "updateInfo ex_host ex_proc =
       (kSuccess,
        ex_proc\<lparr>pr_info :=
            \<lparr>pid = 4242, realUid = 0, realGid = 0, cpuType = 7, cpuSubType = 3,
             nativeCPUType = 7, nativeCPUSubType = 3, endian = kEndianLittle,
             pointerSize = 8, archFlags = 0, osType = ''windows'', osVendor = ''unknown''\<rparr>\<rparr>)"
    using updateInfo_contract [of ex_proc ex_host, THEN conjunct2, THEN conjunct1, rule_format,
            OF ne]
    by (simp add: ex_proc_def ex_host_def)
  moreover have "updateInfo ex_host (snd (updateInfo ex_host ex_proc))
       = (kErrorAlreadyExist, snd (updateInfo ex_host ex_proc))"
    using updateInfo_contract [of ex_proc ex_host, THEN conjunct2, THEN conjunct2] .
  ultimately show ?thesis using ne by (intro conjI)
qed

subsection \<open>\<open>enumerateSharedLibraries\<close>\<close>

text \<open>
  Claim C9 does not hold of the code when the second query stores fewer modules than the
  first asked room for. Here the first query reports three modules and the second stores
  the two modules 8 and 9: the vector keeps a null handle at its end, the loop visits it
  too, and the visitor is called a third time, with the path of the executable again.
\<close>

theorem enumerateSharedLibraries_race:
  "enumerateSharedLibraries ex_host_race ex_proc =
     (kSuccess,
      [\<lparr>path = ''/a'', main = True, sections = [8]\<rparr>,
       \<lparr>path = ''/k'', main = False, sections = [9]\<rparr>,
       \<lparr>path = ''/a'', main = False, sections = [0]\<rparr>])"
  by (simp add: enumerateSharedLibraries_def modules_after_def ex_host_race_def ex_host_def
        ex_proc_def ex_name_def ex_narrow_def unix_path_def upt_rec)

text \<open>
  The call succeeds with three visits, for the two modules the second query has stored.
\<close>

theorem enumerateSharedLibraries_race_witness:
  "fst (enumerateSharedLibraries ex_host_race ex_proc) = kSuccess
   \<and> length (snd (enumerateSharedLibraries ex_host_race ex_proc)) = 3
   \<and> en_stored (EnumProcessModules ex_host_race 1 (pr_handle ex_proc) 24) = [8, 9]
   \<and> map sections (snd (enumerateSharedLibraries ex_host_race ex_proc)) = [[8], [9], [0]]"
  using enumerateSharedLibraries_race by (simp add: ex_host_race_def ex_host_def)

subsection \<open>\<open>deallocateMemory\<close>\<close>

text \<open>
  Claim C10. The code \<open>deallocateMemory\<close> returns does not depend on \<open>size\<close>, on any
  host: the one native call it makes is \<open>VirtualFreeEx\<close> on the address with size 0 and
  \<open>MEM_RELEASE\<close>, the release of the whole region.
\<close>

theorem deallocateMemory_ignores_size:
  "deallocateMemory h p address sz = deallocateMemory h p address sz'
   \<and> deallocateMemory h p address sz =
       (case VirtualFreeEx h (pr_handle p) address 0 MEM_RELEASE of
          Some e \<Rightarrow> TranslateError h e
        | None \<Rightarrow> kSuccess)"
  by (simp add: deallocateMemory_def)

text \<open>
  The theorem at the sample process, for the sizes 0 and 4096.
\<close>

theorem deallocateMemory_ignores_size_witness:
  "deallocateMemory ex_host ex_proc 4096 0 = deallocateMemory ex_host ex_proc 4096 4096
   \<and> deallocateMemory ex_host ex_proc 4096 0 = kSuccess"
proof -
  note w = deallocateMemory_ignores_size [of ex_host ex_proc 4096 0 4096]
  have "deallocateMemory ex_host ex_proc 4096 0 = kSuccess"
    using w [THEN conjunct2] by (simp add: ex_host_def)
  with w [THEN conjunct1] show ?thesis by (intro conjI)
qed

end
